theory Spec2Isabelle
  imports Complex_Main
begin

section \<open>The diagnosis confidence-scoring engine of scripts/diagnose.py\<close>

text \<open>
  This theory embeds the pure part of \<^verbatim>\<open>scripts/diagnose.py\<close>: the embedding
  normaliser at the end of \<^verbatim>\<open>generate_clip_embedding\<close>,
  \<^verbatim>\<open>calculate_symptom_overlap\<close>, \<^verbatim>\<open>calculate_seasonal_relevance\<close>,
  \<^verbatim>\<open>calculate_confidence_metrics\<close> and \<^verbatim>\<open>diagnose_plant_disease\<close>.

  Modelling conventions.
  \<^item> A Python float is modelled by the real number it denotes; rounding and overflow
    are not modelled. The one non-finite value the code builds on purpose,
    \<^verbatim>\<open>float('inf')\<close>, is a constructor of its own in the type \<open>pyfloat\<close>.
  \<^item> Text is a \<open>string\<close> of 8-bit characters; case folding and white space are
    those of ASCII, every other character is a caseless, non-blank letter.
  \<^item> A candidate is the dictionary that the retrieval call returns. Each of its keys
    may be absent, so each field is an \<open>option\<close>. In the first embedding a key
    that is present holds a value of the type the data model gives it; the second
    embedding, of the same lines, takes rows whose keys hold any JSON value, \<^verbatim>\<open>null\<close>
    included, with the TypeError and AttributeError that Python raises on them.
  \<^item> The dictionaries the code builds are maps from key to value, so that a key that
    is absent differs from a key that holds zero.
  \<^item> What raises in Python (indexing out of range, division by zero) is an error
    value \<open>Inl e\<close> in the model.
  \<^item> The clock, the CLIP model and the retrieval call are inputs of the model.
\<close>

subsection \<open>Python primitives\<close>

datatype py_error = IndexError | ZeroDivisionError | TypeError | AttributeError

text \<open>\<^verbatim>\<open>xs[i]\<close> for a non-negative index.\<close>

definition py_index :: "'a list \<Rightarrow> nat \<Rightarrow> py_error + 'a" where
  "py_index xs i = (if i < length xs then Inr (xs ! i) else Inl IndexError)"

text \<open>\<^verbatim>\<open>a / b\<close> on numbers.\<close>

definition py_truediv :: "real \<Rightarrow> real \<Rightarrow> py_error + real" where
  "py_truediv a b = (if b = 0 then Inl ZeroDivisionError else Inr (a / b))"

text \<open>Sequencing of a computation that may raise.\<close>

definition and_then :: "py_error + 'a \<Rightarrow> ('a \<Rightarrow> py_error + 'b) \<Rightarrow> py_error + 'b" where
  "and_then r f = (case r of Inl e \<Rightarrow> Inl e | Inr x \<Rightarrow> f x)"

text \<open>\<^verbatim>\<open>d.get(key, default)\<close> on a field that may be absent.\<close>

definition get_or :: "'a option \<Rightarrow> 'a \<Rightarrow> 'a" where
  "get_or field dflt = (case field of None \<Rightarrow> dflt | Some v \<Rightarrow> v)"

text \<open>\<^verbatim>\<open>str.lower\<close>, \<^verbatim>\<open>str.replace\<close> of one character by another, and
  \<^verbatim>\<open>str.split()\<close> with no argument: the maximal runs of non-blank characters.\<close>

definition lower_char :: "char \<Rightarrow> char" where
  "lower_char c =
     (let n = (of_char c :: nat) in if 65 \<le> n \<and> n \<le> 90 then char_of (n + 32) else c)"

definition str_lower :: "string \<Rightarrow> string" where
  "str_lower s = map lower_char s"

definition str_replace :: "char \<Rightarrow> char \<Rightarrow> string \<Rightarrow> string" where
  "str_replace old new s = map (\<lambda>c. if c = old then new else c) s"

definition is_space :: "char \<Rightarrow> bool" where
  "is_space c = ((of_char c :: nat) \<in> {9, 10, 11, 12, 13, 28, 29, 30, 31, 32})"

fun split_from :: "string \<Rightarrow> string \<Rightarrow> string list" where
  "split_from w [] = (if w = [] then [] else [w])"
| "split_from w (c # cs) =
     (if is_space c then (if w = [] then split_from [] cs else w # split_from [] cs)
      else split_from (w @ [c]) cs)"

definition str_split :: "string \<Rightarrow> string list" where
  "str_split s = split_from [] s"

subsection \<open>The embedding normaliser (generate_clip_embedding, lines 58 to 65)\<close>

text \<open>The code fixes the dimension at 768; the dimension is a parameter here, and
  \<open>generate_clip_embedding\<close> below passes 768. \<^verbatim>\<open>np.pad(e, (0, k))\<close> appends
  \<open>k\<close> zeros.\<close>

definition ensure_dimensions :: "nat \<Rightarrow> real list \<Rightarrow> real list" where
  "ensure_dimensions D embedding =
     (if length embedding \<noteq> D then
        (if length embedding < D then embedding @ replicate (D - length embedding) 0
         else take D embedding)
      else embedding)"

text \<open>The argument is what loading the image and encoding it gave: \<open>None\<close> when the
  image could not be loaded or the encoder raised.\<close>

definition generate_clip_embedding :: "real list option \<Rightarrow> real list option" where
  "generate_clip_embedding encoded =
     (case encoded of None \<Rightarrow> None | Some embedding \<Rightarrow> Some (ensure_dimensions 768 embedding))"

subsection \<open>calculate_symptom_overlap\<close>

definition common_words :: "string set" where
  "common_words =
     {''and'', ''or'', ''the'', ''in'', ''on'', ''at'', ''to'', ''of'', ''with'', ''may'', ''can''}"

definition process_symptoms :: "string \<Rightarrow> string set" where
  "process_symptoms symptoms =
     set (str_split (str_replace (CHR ''.'') (CHR '' '')
            (str_replace (CHR '','') (CHR '' '') (str_lower symptoms))))
       - common_words"

definition calculate_symptom_overlap :: "string \<Rightarrow> string \<Rightarrow> py_error + real" where
  "calculate_symptom_overlap primary_symptoms alternative_symptoms =
     (if primary_symptoms = [] \<or> alternative_symptoms = [] then Inr 0
      else
        let primary_set = process_symptoms primary_symptoms;
            alternative_set = process_symptoms alternative_symptoms
        in if primary_set = {} \<or> alternative_set = {} then Inr 0
           else
             let overlap = card (primary_set \<inter> alternative_set);
                 total = card (primary_set \<union> alternative_set)
             in if total > 0 then py_truediv (real overlap) (real total) else Inr 0)"

subsection \<open>calculate_seasonal_relevance\<close>

record seasonal_pattern =
  peak_months :: "nat list"
  moderate_months :: "nat list"

definition seasonal_patterns :: "string \<rightharpoonup> seasonal_pattern" where
  "seasonal_patterns = map_of
     [(''bacterial spot'', \<lparr>peak_months = [6, 7, 8], moderate_months = [5, 9]\<rparr>),
      (''early blight'', \<lparr>peak_months = [7, 8], moderate_months = [6, 9]\<rparr>),
      (''late blight'', \<lparr>peak_months = [8, 9], moderate_months = [7, 10]\<rparr>),
      (''leaf mold'', \<lparr>peak_months = [6, 7, 8, 9], moderate_months = [5, 10]\<rparr>),
      (''septoria leaf spot'', \<lparr>peak_months = [7, 8], moderate_months = [6, 9]\<rparr>)]"

text \<open>The first argument is \<^verbatim>\<open>datetime.now().month\<close>.\<close>

definition calculate_seasonal_relevance :: "nat \<Rightarrow> string \<Rightarrow> real" where
  "calculate_seasonal_relevance current_month disease_name =
     (case seasonal_patterns (str_lower disease_name) of
        None \<Rightarrow> 0.5
      | Some pattern \<Rightarrow>
          if current_month \<in> set (peak_months pattern) then 1.0
          else if current_month \<in> set (moderate_months pattern) then 0.7
          else 0.3)"

subsection \<open>Candidates and the confidence report\<close>

record candidate =
  disease_name :: "string option"
  similarity :: "real option"
  description :: "string option"
  symptoms :: "string option"
  recommendation :: "string option"

datatype pyfloat = Finite real | Infinity

record overlap_entry =
  disease :: string
  overlap_score :: real

text \<open>The values of the metrics dictionary: a number, or the list of overlap entries.\<close>

datatype metric_value = Number pyfloat | Entries "overlap_entry list"

type_synonym metrics = "string \<rightharpoonup> metric_value"

text \<open>The loop of lines 172 to 177: one entry for each alternative, in order. An error
  of the scorer ends the loop, as the exception would.\<close>

fun symptom_overlaps :: "string \<Rightarrow> candidate list \<Rightarrow> py_error + overlap_entry list" where
  "symptom_overlaps primary_symptoms [] = Inr []"
| "symptom_overlaps primary_symptoms (d # rest) =
     and_then (calculate_symptom_overlap primary_symptoms (get_or (symptoms d) ''''))
       (\<lambda>overlap.
          and_then (symptom_overlaps primary_symptoms rest)
            (\<lambda>entries.
               Inr (\<lparr>disease = get_or (disease_name d) ''Unknown'',
                      overlap_score = overlap\<rparr> # entries)))"

definition calculate_confidence_metrics :: "nat \<Rightarrow> candidate list \<Rightarrow> py_error + metrics" where
  "calculate_confidence_metrics current_month similar_diseases =
     (if similar_diseases = [] then Inr Map.empty
      else
        let confidences = map (\<lambda>d. get_or (similarity d) 0.0) similar_diseases in
        and_then (py_index confidences 0) (\<lambda>primary_confidence.
        let metrics =
              [''absolute_confidence'' \<mapsto> Number (Finite primary_confidence),
               ''relative_confidence'' \<mapsto> Number (Finite 0.0),
               ''confidence_margin'' \<mapsto> Number (Finite 0.0),
               ''diagnosis_clarity'' \<mapsto> Number (Finite 0.0),
               ''symptom_overlap'' \<mapsto> Entries [],
               ''seasonal_relevance'' \<mapsto> Number (Finite 0.0)]
        in
        if length confidences > 1 then
          and_then (py_index confidences 1) (\<lambda>second.
          and_then (if second > 0
                    then and_then (py_truediv primary_confidence second) (\<lambda>q. Inr (Finite q))
                    else Inr Infinity) (\<lambda>relative.
          and_then (py_truediv (sum_list (drop 1 confidences))
                               (real (length (drop 1 confidences)))) (\<lambda>avg_other_confidence.
          and_then (if primary_confidence > 0
                    then py_truediv (primary_confidence - avg_other_confidence) primary_confidence
                    else Inr 0.0) (\<lambda>clarity.
          and_then (py_index similar_diseases 0) (\<lambda>first.
          and_then (symptom_overlaps (get_or (symptoms first) '''') (drop 1 similar_diseases))
            (\<lambda>entries.
          Inr (metrics
                (''relative_confidence'' \<mapsto> Number relative,
                 ''confidence_margin'' \<mapsto> Number (Finite (primary_confidence - second)),
                 ''diagnosis_clarity'' \<mapsto> Number (Finite clarity),
                 ''symptom_overlap'' \<mapsto> Entries entries,
                 ''seasonal_relevance'' \<mapsto>
                    Number (Finite (calculate_seasonal_relevance current_month
                                      (get_or (disease_name first) '''')))))))))))
        else Inr metrics))"

text \<open>\<^verbatim>\<open>calculate_confidence_metrics(...)[key]\<close>, for reading one field of the
  report the calculator returned: \<open>None\<close> when the calculator raised or the report
  has no such key.\<close>

definition metric_of :: "py_error + metrics \<Rightarrow> string \<Rightarrow> metric_value option" where
  "metric_of result key = (case result of Inl e \<Rightarrow> None | Inr m \<Rightarrow> m key)"

subsection \<open>diagnose_plant_disease\<close>

record diagnosis =
  primary_disease :: string
  confidence :: real
  diagnosis_description :: string
  diagnosis_symptoms :: string
  diagnosis_recommendation :: string
  confidence_metrics :: metrics

record alternative =
  alt_disease_name :: string
  alt_confidence :: real
  alt_description :: string

text \<open>The dictionary that \<^verbatim>\<open>diagnose_plant_disease\<close> returns, with the fields of
  \<^verbatim>\<open>DiagnosisResponse\<close> in \<^verbatim>\<open>scripts/api.py\<close>: a key the code does not set
  is \<open>None\<close>.\<close>

record diagnosis_response =
  success :: bool
  error :: "string option"
  details :: "string option"
  diagnosis_payload :: "diagnosis option"
  alternative_diagnoses :: "alternative list option"

text \<open>\<^verbatim>\<open>confidence_metrics.get(key, default)\<close>.\<close>

definition metrics_get :: "metrics \<Rightarrow> string \<Rightarrow> metric_value \<Rightarrow> metric_value" where
  "metrics_get m key dflt = get_or (m key) dflt"

text \<open>Lines 220 to 256 of \<^verbatim>\<open>diagnose_plant_disease\<close>: what the function does with
  the list of candidates that retrieval returned.\<close>

definition assemble_results :: "nat \<Rightarrow> candidate list \<Rightarrow> py_error + diagnosis_response" where
  "assemble_results current_month similar_diseases =
     (if similar_diseases = [] then
        Inr \<lparr>success = False, error = Some ''No similar diseases found'', details = None,
             diagnosis_payload = None, alternative_diagnoses = None\<rparr>
      else
        and_then (calculate_confidence_metrics current_month similar_diseases) (\<lambda>cm.
        and_then (py_index similar_diseases 0) (\<lambda>first.
        Inr \<lparr>success = True, error = None, details = None,
             diagnosis_payload = Some
               \<lparr>primary_disease = get_or (disease_name first) ''Unknown Disease'',
                confidence = get_or (similarity first) 0.0,
                diagnosis_description = get_or (description first) ''No description available'',
                diagnosis_symptoms =
                  get_or (symptoms first) ''No symptoms information available'',
                diagnosis_recommendation =
                  get_or (recommendation first) ''No recommendations available'',
                confidence_metrics =
                  [''relative_confidence'' \<mapsto>
                     metrics_get cm ''relative_confidence'' (Number (Finite 0.0)),
                   ''confidence_margin'' \<mapsto>
                     metrics_get cm ''confidence_margin'' (Number (Finite 0.0)),
                   ''diagnosis_clarity'' \<mapsto>
                     metrics_get cm ''diagnosis_clarity'' (Number (Finite 0.0)),
                   ''symptom_overlap'' \<mapsto> metrics_get cm ''symptom_overlap'' (Entries []),
                   ''seasonal_relevance'' \<mapsto>
                     metrics_get cm ''seasonal_relevance'' (Number (Finite 0.0))]\<rparr>,
             alternative_diagnoses = Some
               (map (\<lambda>d.
                       \<lparr>alt_disease_name = get_or (disease_name d) ''Unknown Disease'',
                        alt_confidence = get_or (similarity d) 0.0,
                        alt_description =
                          get_or (description d) ''No description available''\<rparr>)
                    (drop 1 similar_diseases))\<rparr>)))"

text \<open>The whole function. \<open>load_error\<close> is the message of the exception that loading the
  CLIP model raised, if it raised; \<open>encoded\<close> is the outcome of loading and encoding the
  image; \<open>find_similar_diseases\<close> is the retrieval call with its threshold and count.\<close>

definition diagnose_plant_disease ::
  "string option \<Rightarrow> real list option \<Rightarrow> (real list \<Rightarrow> real \<Rightarrow> int \<Rightarrow> candidate list)
     \<Rightarrow> nat \<Rightarrow> int \<Rightarrow> py_error + diagnosis_response" where
  "diagnose_plant_disease load_error encoded find_similar_diseases current_month top_k =
     (case load_error of
        Some e \<Rightarrow>
          Inr \<lparr>success = False, error = Some ''Failed to load CLIP model'', details = Some e,
               diagnosis_payload = None, alternative_diagnoses = None\<rparr>
      | None \<Rightarrow>
          (case generate_clip_embedding encoded of
             None \<Rightarrow>
               Inr \<lparr>success = False, error = Some ''Failed to generate image embedding'',
                    details = None, diagnosis_payload = None, alternative_diagnoses = None\<rparr>
           | Some embedding \<Rightarrow>
               assemble_results current_month (find_similar_diseases embedding 0.7 top_k)))"

section \<open>The engine on rows of any shape\<close>

text \<open>
  The functions are annotated \<^verbatim>\<open>List[Dict[str, Any]]\<close>, and the rows are parsed
  JSON: a key may be absent, and a key that is present may hold \<^verbatim>\<open>null\<close> or a
  value of any JSON type. This second embedding of lines 88 to 182 and 220 to 256
  takes such rows. It follows the code statement by statement, in the order in which
  Python evaluates, and every operation that raises on a value of the wrong type
  returns the error Python raises. The embedding above is its restriction to rows
  whose fields have the types of the data model.
\<close>

subsection \<open>JSON values and the Python operations on them\<close>

datatype json =
    JNull
  | JBool bool
  | JNum real
  | JStr string
  | JArr "json list"
  | JObj "(string \<times> json) list"

type_synonym row = "string \<rightharpoonup> json"

text \<open>\<^verbatim>\<open>bool(v)\<close>, the test behind \<^verbatim>\<open>not v\<close>.\<close>

fun truthy :: "json \<Rightarrow> bool" where
  "truthy JNull = False"
| "truthy (JBool b) = b"
| "truthy (JNum x) = (x \<noteq> 0)"
| "truthy (JStr s) = (s \<noteq> [])"
| "truthy (JArr xs) = (xs \<noteq> [])"
| "truthy (JObj kvs) = (kvs \<noteq> [])"

text \<open>An operand of an arithmetic operator or of a comparison with a number: a
  number, or a boolean (an \<^verbatim>\<open>int\<close> in Python); anything else is a TypeError.\<close>

fun as_number :: "json \<Rightarrow> py_error + real" where
  "as_number (JNum x) = Inr x"
| "as_number (JBool b) = Inr (if b then 1 else 0)"
| "as_number JNull = Inl TypeError"
| "as_number (JStr s) = Inl TypeError"
| "as_number (JArr xs) = Inl TypeError"
| "as_number (JObj kvs) = Inl TypeError"

text \<open>\<^verbatim>\<open>v > 0\<close>, \<^verbatim>\<open>a / b\<close> and \<^verbatim>\<open>a - b\<close>: the types of both operands are
  checked before the divisor is.\<close>

definition py_gt_zero :: "json \<Rightarrow> py_error + bool" where
  "py_gt_zero v = and_then (as_number v) (\<lambda>x. Inr (x > 0))"

definition py_div :: "json \<Rightarrow> json \<Rightarrow> py_error + real" where
  "py_div a b = and_then (as_number a) (\<lambda>x. and_then (as_number b) (\<lambda>y. py_truediv x y))"

definition py_sub :: "json \<Rightarrow> json \<Rightarrow> py_error + real" where
  "py_sub a b = and_then (as_number a) (\<lambda>x. and_then (as_number b) (\<lambda>y. Inr (x - y)))"

text \<open>\<^verbatim>\<open>sum(vs)\<close>: the additions \<^verbatim>\<open>0 + v\<close> from left to right.\<close>

fun py_sum_from :: "real \<Rightarrow> json list \<Rightarrow> py_error + real" where
  "py_sum_from acc [] = Inr acc"
| "py_sum_from acc (v # vs) = and_then (as_number v) (\<lambda>x. py_sum_from (acc + x) vs)"

definition py_sum :: "json list \<Rightarrow> py_error + real" where
  "py_sum vs = py_sum_from 0 vs"

text \<open>\<^verbatim>\<open>v.lower()\<close>: only a string has the method.\<close>

fun py_lower :: "json \<Rightarrow> py_error + string" where
  "py_lower (JStr s) = Inr (str_lower s)"
| "py_lower JNull = Inl AttributeError"
| "py_lower (JBool b) = Inl AttributeError"
| "py_lower (JNum x) = Inl AttributeError"
| "py_lower (JArr xs) = Inl AttributeError"
| "py_lower (JObj kvs) = Inl AttributeError"

subsection \<open>calculate_symptom_overlap and calculate_seasonal_relevance on any value\<close>

definition process_symptoms_any :: "json \<Rightarrow> py_error + string set" where
  "process_symptoms_any symptom_text =
     and_then (py_lower symptom_text) (\<lambda>lowered.
       Inr (set (str_split (str_replace (CHR ''.'') (CHR '' '')
                   (str_replace (CHR '','') (CHR '' '') lowered)))
            - common_words))"

definition calculate_symptom_overlap_any :: "json \<Rightarrow> json \<Rightarrow> py_error + real" where
  "calculate_symptom_overlap_any primary_symptoms alternative_symptoms =
     (if \<not> truthy primary_symptoms \<or> \<not> truthy alternative_symptoms then Inr 0
      else
        and_then (process_symptoms_any primary_symptoms) (\<lambda>primary_set.
        and_then (process_symptoms_any alternative_symptoms) (\<lambda>alternative_set.
          if primary_set = {} \<or> alternative_set = {} then Inr 0
          else
            let overlap = card (primary_set \<inter> alternative_set);
                total = card (primary_set \<union> alternative_set)
            in if total > 0 then py_truediv (real overlap) (real total) else Inr 0)))"

definition calculate_seasonal_relevance_any :: "nat \<Rightarrow> json \<Rightarrow> py_error + real" where
  "calculate_seasonal_relevance_any current_month name =
     and_then (py_lower name) (\<lambda>lowered.
       case seasonal_patterns lowered of
         None \<Rightarrow> Inr 0.5
       | Some pattern \<Rightarrow>
           if current_month \<in> set (peak_months pattern) then Inr 1.0
           else if current_month \<in> set (moderate_months pattern) then Inr 0.7
           else Inr 0.3)"

subsection \<open>calculate_confidence_metrics on any rows\<close>

record any_overlap_entry =
  any_disease :: json
  any_overlap_score :: real

text \<open>The values of the metrics dictionary: a value copied from a row, a number the
  code computed, or the list of overlap entries.\<close>

datatype any_metric = Copied json | Computed pyfloat | Overlaps "any_overlap_entry list"

type_synonym any_metrics = "string \<rightharpoonup> any_metric"

fun symptom_overlaps_any :: "json \<Rightarrow> row list \<Rightarrow> py_error + any_overlap_entry list" where
  "symptom_overlaps_any primary_symptoms [] = Inr []"
| "symptom_overlaps_any primary_symptoms (d # rest) =
     and_then (calculate_symptom_overlap_any primary_symptoms
                 (get_or (d ''symptoms'') (JStr '''')))
       (\<lambda>overlap.
          and_then (symptom_overlaps_any primary_symptoms rest)
            (\<lambda>entries.
               Inr (\<lparr>any_disease = get_or (d ''disease_name'') (JStr ''Unknown''),
                      any_overlap_score = overlap\<rparr> # entries)))"

definition calculate_confidence_metrics_any :: "nat \<Rightarrow> row list \<Rightarrow> py_error + any_metrics" where
  "calculate_confidence_metrics_any current_month similar_diseases =
     (if similar_diseases = [] then Inr Map.empty
      else
        let confidences = map (\<lambda>d. get_or (d ''similarity'') (JNum 0.0)) similar_diseases in
        and_then (py_index confidences 0) (\<lambda>primary_confidence.
        let metrics =
              [''absolute_confidence'' \<mapsto> Copied primary_confidence,
               ''relative_confidence'' \<mapsto> Computed (Finite 0.0),
               ''confidence_margin'' \<mapsto> Computed (Finite 0.0),
               ''diagnosis_clarity'' \<mapsto> Computed (Finite 0.0),
               ''symptom_overlap'' \<mapsto> Overlaps [],
               ''seasonal_relevance'' \<mapsto> Computed (Finite 0.0)]
        in
        if length confidences > 1 then
          and_then (py_index confidences 1) (\<lambda>second.
          and_then (and_then (py_gt_zero second) (\<lambda>positive.
                      if positive
                      then and_then (py_div primary_confidence second) (\<lambda>q. Inr (Finite q))
                      else Inr Infinity)) (\<lambda>relative.
          and_then (py_sub primary_confidence second) (\<lambda>margin.
          and_then (and_then (py_sum (drop 1 confidences)) (\<lambda>total.
                      py_truediv total (real (length (drop 1 confidences)))))
            (\<lambda>avg_other_confidence.
          and_then (and_then (py_gt_zero primary_confidence) (\<lambda>positive.
                      if positive
                      then and_then (py_sub primary_confidence (JNum avg_other_confidence))
                             (\<lambda>gap. py_div (JNum gap) primary_confidence)
                      else Inr 0.0)) (\<lambda>clarity.
          and_then (py_index similar_diseases 0) (\<lambda>first.
          and_then (symptom_overlaps_any (get_or (first ''symptoms'') (JStr ''''))
                      (drop 1 similar_diseases)) (\<lambda>entries.
          and_then (calculate_seasonal_relevance_any current_month
                      (get_or (first ''disease_name'') (JStr ''''))) (\<lambda>seasonal.
          Inr (metrics
                (''relative_confidence'' \<mapsto> Computed relative,
                 ''confidence_margin'' \<mapsto> Computed (Finite margin),
                 ''diagnosis_clarity'' \<mapsto> Computed (Finite clarity),
                 ''symptom_overlap'' \<mapsto> Overlaps entries,
                 ''seasonal_relevance'' \<mapsto> Computed (Finite seasonal)))))))))))
        else Inr metrics))"

subsection \<open>Lines 220 to 256 of diagnose_plant_disease on any rows\<close>

record any_diagnosis =
  any_primary_disease :: json
  any_confidence :: json
  any_description :: json
  any_symptoms :: json
  any_recommendation :: json
  any_confidence_metrics :: any_metrics

record any_alternative =
  any_alt_disease_name :: json
  any_alt_confidence :: json
  any_alt_description :: json

record any_response =
  any_success :: bool
  any_error :: "string option"
  any_details :: "string option"
  any_diagnosis_payload :: "any_diagnosis option"
  any_alternative_diagnoses :: "any_alternative list option"

definition assemble_results_any :: "nat \<Rightarrow> row list \<Rightarrow> py_error + any_response" where
  "assemble_results_any current_month similar_diseases =
     (if similar_diseases = [] then
        Inr \<lparr>any_success = False, any_error = Some ''No similar diseases found'',
             any_details = None, any_diagnosis_payload = None,
             any_alternative_diagnoses = None\<rparr>
      else
        and_then (calculate_confidence_metrics_any current_month similar_diseases) (\<lambda>cm.
        and_then (py_index similar_diseases 0) (\<lambda>first.
        Inr \<lparr>any_success = True, any_error = None, any_details = None,
             any_diagnosis_payload = Some
               \<lparr>any_primary_disease = get_or (first ''disease_name'') (JStr ''Unknown Disease''),
                any_confidence = get_or (first ''similarity'') (JNum 0.0),
                any_description =
                  get_or (first ''description'') (JStr ''No description available''),
                any_symptoms =
                  get_or (first ''symptoms'') (JStr ''No symptoms information available''),
                any_recommendation =
                  get_or (first ''recommendation'') (JStr ''No recommendations available''),
                any_confidence_metrics =
                  [''relative_confidence'' \<mapsto>
                     get_or (cm ''relative_confidence'') (Computed (Finite 0.0)),
                   ''confidence_margin'' \<mapsto>
                     get_or (cm ''confidence_margin'') (Computed (Finite 0.0)),
                   ''diagnosis_clarity'' \<mapsto>
                     get_or (cm ''diagnosis_clarity'') (Computed (Finite 0.0)),
                   ''symptom_overlap'' \<mapsto> get_or (cm ''symptom_overlap'') (Overlaps []),
                   ''seasonal_relevance'' \<mapsto>
                     get_or (cm ''seasonal_relevance'') (Computed (Finite 0.0))]\<rparr>,
             any_alternative_diagnoses = Some
               (map (\<lambda>d.
                       \<lparr>any_alt_disease_name =
                          get_or (d ''disease_name'') (JStr ''Unknown Disease''),
                        any_alt_confidence = get_or (d ''similarity'') (JNum 0.0),
                        any_alt_description =
                          get_or (d ''description'') (JStr ''No description available'')\<rparr>)
                    (drop 1 similar_diseases))\<rparr>)))"

subsection \<open>Rows and candidates\<close>

text \<open>The types that section 3 of the specification gives the fields the computation
  works on: a similarity that is present is a number, a disease_name and a symptoms
  text that are present are strings. The other fields are only copied, and may hold
  anything.\<close>

definition well_typed :: "row \<Rightarrow> bool" where
  "well_typed d =
     ((case d ''similarity'' of None \<Rightarrow> True | Some v \<Rightarrow> (case v of JNum x \<Rightarrow> True | _ \<Rightarrow> False)) \<and>
      (case d ''disease_name'' of None \<Rightarrow> True | Some v \<Rightarrow> (case v of JStr s \<Rightarrow> True | _ \<Rightarrow> False)) \<and>
      (case d ''symptoms'' of None \<Rightarrow> True | Some v \<Rightarrow> (case v of JStr s \<Rightarrow> True | _ \<Rightarrow> False)))"

text \<open>What the code reads from a row with such types: a number, and two texts.\<close>

definition similarity_of :: "row \<Rightarrow> real" where
  "similarity_of d = (case d ''similarity'' of Some (JNum x) \<Rightarrow> x | _ \<Rightarrow> 0)"

definition text_of :: "row \<Rightarrow> string \<Rightarrow> string \<Rightarrow> string" where
  "text_of d key dflt = (case d key of Some (JStr s) \<Rightarrow> s | _ \<Rightarrow> dflt)"

text \<open>A candidate of the first embedding, as a row: each field that is present
  becomes a key holding a value of its type. A report of the first embedding, as a
  report of the second.\<close>

definition row_of :: "candidate \<Rightarrow> row" where
  "row_of c = (\<lambda>key.
     if key = ''disease_name'' then map_option JStr (disease_name c)
     else if key = ''similarity'' then map_option JNum (similarity c)
     else if key = ''description'' then map_option JStr (description c)
     else if key = ''symptoms'' then map_option JStr (symptoms c)
     else if key = ''recommendation'' then map_option JStr (recommendation c)
     else None)"

definition entry_of :: "overlap_entry \<Rightarrow> any_overlap_entry" where
  "entry_of e = \<lparr>any_disease = JStr (disease e), any_overlap_score = overlap_score e\<rparr>"

fun any_of_metric :: "metric_value \<Rightarrow> any_metric" where
  "any_of_metric (Number p) = Computed p"
| "any_of_metric (Entries es) = Overlaps (map entry_of es)"

section \<open>Properties\<close>

subsection \<open>The embedding normaliser\<close>

text \<open>
  Claim C9. For every vector \<open>v\<close> and every dimension \<open>D\<close>, the normaliser returns a
  vector of length \<open>D\<close>: \<open>v\<close> itself when its length is \<open>D\<close>, \<open>v\<close> followed by zeros
  when it is shorter, the first \<open>D\<close> elements of \<open>v\<close> when it is longer. The code
  calls it with \<open>D = 768\<close>.
\<close>

theorem ensure_dimensions_spec:
  "length (ensure_dimensions D v) = D \<and>
   (length v = D \<longrightarrow> ensure_dimensions D v = v) \<and>
   (length v < D \<longrightarrow> ensure_dimensions D v = v @ replicate (D - length v) 0) \<and>
   (D < length v \<longrightarrow> ensure_dimensions D v = take D v) \<and>
   generate_clip_embedding (Some v) = Some (ensure_dimensions 768 v)"
  by (simp add: ensure_dimensions_def generate_clip_embedding_def)

theorem ensure_dimensions_spec_witness:
  "ensure_dimensions 2 [1, 2] = [1, 2] \<and> ensure_dimensions 3 [1, 2] = [1, 2, 0] \<and>
   ensure_dimensions 1 [1, 2] = [1] \<and> length (ensure_dimensions 768 []) = 768"
  using ensure_dimensions_spec [of 2 "[1, 2]"] ensure_dimensions_spec [of 3 "[1, 2]"]
    ensure_dimensions_spec [of 1 "[1, 2]"] ensure_dimensions_spec [of 768 "[]"]
  by (simp add: numeral_3_eq_3)

subsection \<open>The symptom overlap scorer\<close>

lemma finite_process_symptoms: "finite (process_symptoms s)"
  by (simp add: process_symptoms_def)

lemma process_symptoms_Nil: "process_symptoms [] = {}"
  by (simp add: process_symptoms_def str_split_def str_lower_def str_replace_def)

text \<open>The scorer never raises: the value it returns, in closed form.\<close>

lemma overlap_value:
  "calculate_symptom_overlap a b =
     Inr (if a = [] \<or> b = [] \<or> process_symptoms a = {} \<or> process_symptoms b = {} then 0
          else real (card (process_symptoms a \<inter> process_symptoms b)) /
               real (card (process_symptoms a \<union> process_symptoms b)))"
  by (auto simp: calculate_symptom_overlap_def Let_def py_truediv_def finite_process_symptoms)

text \<open>
  Claim C6. The scorer is symmetric: the overlap of \<open>a\<close> with \<open>b\<close> is the overlap of
  \<open>b\<close> with \<open>a\<close>, for every pair of texts.
\<close>

theorem symptom_overlap_symmetric:
  "calculate_symptom_overlap a b = calculate_symptom_overlap b a"
  by (simp add: calculate_symptom_overlap_def Let_def Int_commute Un_commute disj_commute)

lemma overlap_dark_spots:
  "calculate_symptom_overlap ''dark spots'' ''spots, fuzzy'' = Inr (1 / 3)"
  by code_simp

theorem symptom_overlap_symmetric_witness:
  "calculate_symptom_overlap ''dark spots'' ''spots, fuzzy'' = Inr (1 / 3) \<and>
   calculate_symptom_overlap ''spots, fuzzy'' ''dark spots'' = Inr (1 / 3)"
  using symptom_overlap_symmetric [of "''dark spots''" "''spots, fuzzy''"] overlap_dark_spots
  by simp

text \<open>
  Claim C7. For every pair of texts the scorer returns a value between 0 and 1; the
  value is 0 when either text is empty or either processed word set is empty, and 1
  when both texts have the same non-empty processed word set.
\<close>

theorem symptom_overlap_range:
  "\<exists>r. calculate_symptom_overlap a b = Inr r \<and> 0 \<le> r \<and> r \<le> 1 \<and>
     (a = [] \<or> b = [] \<or> process_symptoms a = {} \<or> process_symptoms b = {} \<longrightarrow> r = 0) \<and>
     (process_symptoms a = process_symptoms b \<and> process_symptoms a \<noteq> {} \<longrightarrow> r = 1)"
proof -
  let ?A = "process_symptoms a" and ?B = "process_symptoms b"
  have fin: "finite ?A" "finite ?B" by (simp_all add: finite_process_symptoms)
  have le: "card (?A \<inter> ?B) \<le> card (?A \<union> ?B)"
    by (rule card_mono) (use fin in auto)
  have nonempty: "s \<noteq> []" if "process_symptoms s \<noteq> {}" for s
    using that process_symptoms_Nil by auto
  show ?thesis
    unfolding overlap_value
    using le fin nonempty[of a] nonempty[of b]
    by (auto simp: divide_le_eq_1 card_gt_0_iff)
qed

lemma process_dark_spots: "process_symptoms ''Dark spots.'' = {''dark'', ''spots''}"
  by code_simp

lemma process_dark_spots_and: "process_symptoms ''dark, SPOTS and'' = {''dark'', ''spots''}"
  by code_simp

lemma process_the: "process_symptoms ''the'' = {}"
  by code_simp

theorem symptom_overlap_range_witness:
  "calculate_symptom_overlap ''Dark spots.'' ''dark, SPOTS and'' = Inr 1 \<and>
   calculate_symptom_overlap ''the'' ''dark'' = Inr 0 \<and>
   calculate_symptom_overlap '''' ''dark'' = Inr 0"
  using symptom_overlap_range [of "''Dark spots.''" "''dark, SPOTS and''"]
    symptom_overlap_range [of "''the''" "''dark''"]
    symptom_overlap_range [of "''''" "''dark''"]
  by (auto simp: process_dark_spots process_dark_spots_and process_the)

subsection \<open>The seasonal relevance scorer\<close>

text \<open>
  Claim C8. For every disease name and every month the scorer returns one of 1.0, 0.7,
  0.5 and 0.3: 0.5 when the lower-cased name is not in the seasonal table, 1.0 when
  the month is a peak month of the disease, 0.7 when it is not a peak month but a
  moderate month, and 0.3 otherwise.
\<close>

theorem seasonal_relevance_values:
  "calculate_seasonal_relevance month name \<in> {1.0, 0.7, 0.5, 0.3} \<and>
   (seasonal_patterns (str_lower name) = None \<longrightarrow>
      calculate_seasonal_relevance month name = 0.5) \<and>
   (\<forall>p. seasonal_patterns (str_lower name) = Some p \<longrightarrow>
      (month \<in> set (peak_months p) \<longrightarrow> calculate_seasonal_relevance month name = 1.0) \<and>
      (month \<notin> set (peak_months p) \<and> month \<in> set (moderate_months p) \<longrightarrow>
         calculate_seasonal_relevance month name = 0.7) \<and>
      (month \<notin> set (peak_months p) \<and> month \<notin> set (moderate_months p) \<longrightarrow>
         calculate_seasonal_relevance month name = 0.3))"
  by (simp add: calculate_seasonal_relevance_def split: option.split)

lemma pattern_early_blight:
  "seasonal_patterns (str_lower ''Early Blight'') =
     Some \<lparr>peak_months = [7, 8], moderate_months = [6, 9]\<rparr>"
  by code_simp

lemma pattern_healthy: "seasonal_patterns (str_lower ''Healthy'') = None"
  by code_simp

theorem seasonal_relevance_values_witness:
  "calculate_seasonal_relevance 7 ''Early Blight'' = 1.0 \<and>
   calculate_seasonal_relevance 6 ''Early Blight'' = 0.7 \<and>
   calculate_seasonal_relevance 1 ''Early Blight'' = 0.3 \<and>
   calculate_seasonal_relevance 7 ''Healthy'' = 0.5"
  using seasonal_relevance_values [of 7 "''Early Blight''"]
    seasonal_relevance_values [of 6 "''Early Blight''"]
    seasonal_relevance_values [of 1 "''Early Blight''"]
    seasonal_relevance_values [of 7 "''Healthy''"]
  by (simp add: pattern_early_blight pattern_healthy)

subsection \<open>The confidence metrics calculator\<close>

text \<open>The loop over the alternatives never raises, and yields one entry for each
  alternative, in order.\<close>

lemma symptom_overlaps_total:
  "\<exists>es. symptom_overlaps p ds = Inr es \<and> length es = length ds \<and>
     (\<forall>i<length ds. disease (es ! i) = get_or (disease_name (ds ! i)) ''Unknown'' \<and>
        calculate_symptom_overlap p (get_or (symptoms (ds ! i)) '''') =
          Inr (overlap_score (es ! i)))"
proof (induction ds)
  case Nil
  then show ?case by simp
next
  case (Cons d ds)
  then obtain es where es: "symptom_overlaps p ds = Inr es" "length es = length ds"
    "\<forall>i<length ds. disease (es ! i) = get_or (disease_name (ds ! i)) ''Unknown'' \<and>
        calculate_symptom_overlap p (get_or (symptoms (ds ! i)) '''') =
          Inr (overlap_score (es ! i))"
    by blast
  obtain r where r: "calculate_symptom_overlap p (get_or (symptoms d) '''') = Inr r"
    using overlap_value by blast
  show ?case
    using es r by (auto simp: and_then_def nth_Cons split: nat.split)
qed

text \<open>The report for two candidates or more, and for exactly one.\<close>

lemma metrics_two:
  assumes "symptom_overlaps (get_or (symptoms c0) '''') (c1 # rest) = Inr es"
  shows "calculate_confidence_metrics month (c0 # c1 # rest) =
     Inr [''absolute_confidence'' \<mapsto> Number (Finite (get_or (similarity c0) 0)),
          ''relative_confidence'' \<mapsto>
             Number (if get_or (similarity c1) 0 > 0
                     then Finite (get_or (similarity c0) 0 / get_or (similarity c1) 0)
                     else Infinity),
          ''confidence_margin'' \<mapsto>
             Number (Finite (get_or (similarity c0) 0 - get_or (similarity c1) 0)),
          ''diagnosis_clarity'' \<mapsto>
             Number (Finite (if get_or (similarity c0) 0 > 0
                then (get_or (similarity c0) 0 -
                       sum_list (map (\<lambda>d. get_or (similarity d) 0) (c1 # rest))
                         / real (Suc (length rest)))
                     / get_or (similarity c0) 0
                else 0)),
          ''symptom_overlap'' \<mapsto> Entries es,
          ''seasonal_relevance'' \<mapsto>
             Number (Finite (calculate_seasonal_relevance month
                               (get_or (disease_name c0) '''')))]"
  using assms
  by (auto simp: calculate_confidence_metrics_def py_index_def py_truediv_def and_then_def
      Let_def)

lemma metrics_one:
  "calculate_confidence_metrics month [c0] =
     Inr [''absolute_confidence'' \<mapsto> Number (Finite (get_or (similarity c0) 0)),
          ''relative_confidence'' \<mapsto> Number (Finite 0),
          ''confidence_margin'' \<mapsto> Number (Finite 0),
          ''diagnosis_clarity'' \<mapsto> Number (Finite 0),
          ''symptom_overlap'' \<mapsto> Entries [],
          ''seasonal_relevance'' \<mapsto> Number (Finite 0)]"
  by (simp add: calculate_confidence_metrics_def py_index_def and_then_def Let_def)

lemma two_or_more: "2 \<le> length cs \<Longrightarrow> \<exists>c0 c1 rest. cs = c0 # c1 # rest"
  by (cases cs; cases "tl cs") auto

lemma relative_confidence_value:
  "metric_of (calculate_confidence_metrics month (c0 # c1 # rest)) ''relative_confidence'' =
     Some (Number (if get_or (similarity c1) 0 > 0
                   then Finite (get_or (similarity c0) 0 / get_or (similarity c1) 0)
                   else Infinity))"
proof -
  obtain es where "symptom_overlaps (get_or (symptoms c0) '''') (c1 # rest) = Inr es"
    using symptom_overlaps_total by blast
  then show ?thesis
    by (simp add: metrics_two metric_of_def)
qed

text \<open>
  Claim C2, as stated, fails. With similarities 0.5 and -0.5 the second similarity is
  not zero, and relative_confidence is \<^verbatim>\<open>float('inf')\<close>, not the quotient -1; with
  similarities 0.5 and 0 it is \<^verbatim>\<open>float('inf')\<close> again, a non-finite number.
\<close>

theorem relative_confidence_counterexample:
  "metric_of (calculate_confidence_metrics 7
      [\<lparr>disease_name = Some ''Early Blight'', similarity = Some 0.5, description = None,
        symptoms = None, recommendation = None\<rparr>,
       \<lparr>disease_name = Some ''Late Blight'', similarity = Some (- 0.5), description = None,
        symptoms = None, recommendation = None\<rparr>])
      ''relative_confidence'' = Some (Number Infinity) \<and>
   Some (Number Infinity) \<noteq> Some (Number (Finite (0.5 / (- 0.5)))) \<and>
   metric_of (calculate_confidence_metrics 7
      [\<lparr>disease_name = Some ''Early Blight'', similarity = Some 0.5, description = None,
        symptoms = None, recommendation = None\<rparr>,
       \<lparr>disease_name = Some ''Late Blight'', similarity = Some 0, description = None,
        symptoms = None, recommendation = None\<rparr>])
      ''relative_confidence'' = Some (Number Infinity)"
  by (simp add: relative_confidence_value get_or_def)

text \<open>
  Claim C2, amended. For every list of two candidates or more, relative_confidence is
  the first similarity divided by the second when the second similarity is greater
  than zero, and \<^verbatim>\<open>float('inf')\<close> when the second similarity is zero or negative
  (an absent similarity counts as 0.0).
\<close>

theorem relative_confidence_guarded:
  assumes "2 \<le> length cs"
  shows "metric_of (calculate_confidence_metrics month cs) ''relative_confidence'' =
     Some (Number (if get_or (similarity (cs ! 1)) 0 > 0
                   then Finite (get_or (similarity (cs ! 0)) 0 / get_or (similarity (cs ! 1)) 0)
                   else Infinity))"
proof -
  obtain c0 c1 rest where cs: "cs = c0 # c1 # rest"
    using two_or_more [OF assms] by blast
  show ?thesis
    unfolding cs using relative_confidence_value [of month c0 c1 rest] by simp
qed

theorem relative_confidence_guarded_witness:
  "metric_of (calculate_confidence_metrics 7
      [\<lparr>disease_name = Some ''Early Blight'', similarity = Some 0.92, description = None,
        symptoms = Some ''dark spots yellowing'', recommendation = None\<rparr>,
       \<lparr>disease_name = Some ''Late Blight'', similarity = Some 0.61, description = None,
        symptoms = Some ''dark lesions fuzzy growth'', recommendation = None\<rparr>])
      ''relative_confidence'' = Some (Number (Finite (92 / 61))) \<and>
   metric_of (calculate_confidence_metrics 7
      [\<lparr>disease_name = Some ''Early Blight'', similarity = Some 0.5, description = None,
        symptoms = None, recommendation = None\<rparr>,
       \<lparr>disease_name = Some ''Late Blight'', similarity = Some 0, description = None,
        symptoms = None, recommendation = None\<rparr>])
      ''relative_confidence'' = Some (Number Infinity)"
  using relative_confidence_guarded [of
      "[\<lparr>disease_name = Some ''Early Blight'', similarity = Some 0.92, description = None,
        symptoms = Some ''dark spots yellowing'', recommendation = None\<rparr>,
       \<lparr>disease_name = Some ''Late Blight'', similarity = Some 0.61, description = None,
        symptoms = Some ''dark lesions fuzzy growth'', recommendation = None\<rparr>]" 7]
    relative_confidence_guarded [of
      "[\<lparr>disease_name = Some ''Early Blight'', similarity = Some 0.5, description = None,
        symptoms = None, recommendation = None\<rparr>,
       \<lparr>disease_name = Some ''Late Blight'', similarity = Some 0, description = None,
        symptoms = None, recommendation = None\<rparr>]" 7]
  by (simp add: get_or_def)

text \<open>
  Claim C3, as stated, fails. For the empty list the calculator returns the empty
  dictionary: it has no absolute_confidence field, so that field is not 0.0.
\<close>

theorem empty_report_counterexample:
  "calculate_confidence_metrics 7 [] = Inr Map.empty \<and>
   metric_of (calculate_confidence_metrics 7 []) ''absolute_confidence'' \<noteq>
     Some (Number (Finite 0.0))"
  by (simp add: calculate_confidence_metrics_def metric_of_def)

text \<open>
  Claim C3, amended. For the empty list the calculator returns the empty report, which
  has no field at all; read with a default, as the assembler reads it (0.0 for a
  numeric field, the empty sequence for symptom_overlap), every field is its default.
\<close>

theorem empty_report:
  "\<exists>m. calculate_confidence_metrics month [] = Inr m \<and> dom m = {} \<and>
     (\<forall>key dflt. metrics_get m key dflt = dflt)"
  by (simp add: calculate_confidence_metrics_def metrics_get_def get_or_def)

theorem empty_report_witness:
  "\<exists>m. calculate_confidence_metrics 7 [] = Inr m \<and>
     metrics_get m ''relative_confidence'' (Number (Finite 0.0)) = Number (Finite 0.0) \<and>
     metrics_get m ''symptom_overlap'' (Entries []) = Entries []"
  using empty_report [of 7] by blast

text \<open>
  Claim C4. For every list of two candidates or more that is sorted by descending
  similarity, confidence_margin is the first similarity minus the second, and that
  value is not negative.
\<close>

theorem confidence_margin_sorted:
  assumes "2 \<le> length cs"
    and "sorted_wrt (\<ge>) (map (\<lambda>d. get_or (similarity d) 0) cs)"
  shows "metric_of (calculate_confidence_metrics month cs) ''confidence_margin'' =
     Some (Number (Finite (get_or (similarity (cs ! 0)) 0 - get_or (similarity (cs ! 1)) 0))) \<and>
     0 \<le> get_or (similarity (cs ! 0)) 0 - get_or (similarity (cs ! 1)) 0"
proof -
  obtain c0 c1 rest where cs: "cs = c0 # c1 # rest"
    using two_or_more [OF assms(1)] by blast
  obtain es where "symptom_overlaps (get_or (symptoms c0) '''') (c1 # rest) = Inr es"
    using symptom_overlaps_total by blast
  then show ?thesis
    using assms(2) unfolding cs by (simp add: metrics_two metric_of_def)
qed

theorem confidence_margin_sorted_witness:
  "metric_of (calculate_confidence_metrics 7
      [\<lparr>disease_name = Some ''Early Blight'', similarity = Some 0.92, description = None,
        symptoms = Some ''dark spots yellowing'', recommendation = None\<rparr>,
       \<lparr>disease_name = Some ''Late Blight'', similarity = Some 0.61, description = None,
        symptoms = Some ''dark lesions fuzzy growth'', recommendation = None\<rparr>])
      ''confidence_margin'' = Some (Number (Finite 0.31))"
  using confidence_margin_sorted [of
      "[\<lparr>disease_name = Some ''Early Blight'', similarity = Some 0.92, description = None,
        symptoms = Some ''dark spots yellowing'', recommendation = None\<rparr>,
       \<lparr>disease_name = Some ''Late Blight'', similarity = Some 0.61, description = None,
        symptoms = Some ''dark lesions fuzzy growth'', recommendation = None\<rparr>]" 7]
  by (simp add: get_or_def)

subsection \<open>The diagnosis assembler\<close>

text \<open>
  Claim C5. For every list of exactly one candidate the calculator leaves
  relative_confidence, confidence_margin, diagnosis_clarity and seasonal_relevance at
  0.0 and symptom_overlap empty, and sets absolute_confidence to the similarity of the
  candidate (0.0 when absent); the assembled result is a success whose confidence
  metrics are all at their zero defaults and whose alternative_diagnoses is empty.
\<close>

theorem single_candidate:
  "calculate_confidence_metrics month [c] =
     Inr [''absolute_confidence'' \<mapsto> Number (Finite (get_or (similarity c) 0.0)),
          ''relative_confidence'' \<mapsto> Number (Finite 0.0),
          ''confidence_margin'' \<mapsto> Number (Finite 0.0),
          ''diagnosis_clarity'' \<mapsto> Number (Finite 0.0),
          ''symptom_overlap'' \<mapsto> Entries [],
          ''seasonal_relevance'' \<mapsto> Number (Finite 0.0)] \<and>
   (\<exists>r d. assemble_results month [c] = Inr r \<and> success r \<and> diagnosis_payload r = Some d \<and>
      confidence_metrics d =
        [''relative_confidence'' \<mapsto> Number (Finite 0.0),
         ''confidence_margin'' \<mapsto> Number (Finite 0.0),
         ''diagnosis_clarity'' \<mapsto> Number (Finite 0.0),
         ''symptom_overlap'' \<mapsto> Entries [],
         ''seasonal_relevance'' \<mapsto> Number (Finite 0.0)] \<and>
      alternative_diagnoses r = Some [])"
  by (simp add: metrics_one assemble_results_def and_then_def py_index_def metrics_get_def
      get_or_def)

theorem single_candidate_witness:
  "metric_of (calculate_confidence_metrics 7
      [\<lparr>disease_name = Some ''Healthy'', similarity = Some 0.99, description = None,
        symptoms = Some ''none'', recommendation = None\<rparr>])
      ''absolute_confidence'' = Some (Number (Finite 0.99)) \<and>
   alternative_diagnoses (projr (assemble_results 7
      [\<lparr>disease_name = Some ''Healthy'', similarity = Some 0.99, description = None,
        symptoms = Some ''none'', recommendation = None\<rparr>])) = Some []"
  using single_candidate [of 7
      "\<lparr>disease_name = Some ''Healthy'', similarity = Some 0.99, description = None,
        symptoms = Some ''none'', recommendation = None\<rparr>"]
  by (auto simp: metric_of_def get_or_def)

text \<open>
  Claim C1, as stated, fails. For the empty list the error message of the failure
  result is "No similar diseases found", not "no similar matches found".
\<close>

theorem empty_error_message_counterexample:
  "assemble_results 7 [] =
     Inr \<lparr>success = False, error = Some ''No similar diseases found'', details = None,
          diagnosis_payload = None, alternative_diagnoses = None\<rparr> \<and>
   error (projr (assemble_results 7 [])) \<noteq> Some ''no similar matches found''"
  by (simp add: assemble_results_def)

text \<open>
  Claim C1, amended. For the empty list the assembler returns a failure result: the
  success flag is false, the error message is exactly "No similar diseases found", and
  there is no diagnosis payload and no list of alternatives. So does the whole of
  \<^verbatim>\<open>diagnose_plant_disease\<close> when retrieval finds nothing.
\<close>

theorem empty_candidates_failure:
  "assemble_results month [] =
     Inr \<lparr>success = False, error = Some ''No similar diseases found'', details = None,
          diagnosis_payload = None, alternative_diagnoses = None\<rparr> \<and>
   diagnose_plant_disease None (Some v) (\<lambda>embedding threshold k. []) month top_k =
     Inr \<lparr>success = False, error = Some ''No similar diseases found'', details = None,
          diagnosis_payload = None, alternative_diagnoses = None\<rparr>"
  by (simp add: assemble_results_def diagnose_plant_disease_def generate_clip_embedding_def)

theorem empty_candidates_failure_witness:
  "success (projr (assemble_results 7 [])) = False \<and>
   error (projr (assemble_results 7 [])) = Some ''No similar diseases found'' \<and>
   diagnosis_payload (projr (assemble_results 7 [])) = None"
  using empty_candidates_failure [of 7] by simp

subsection \<open>Rows of any shape: absent, null and ill-typed fields\<close>



lemma and_then_Inr: "and_then (Inr x) f = f x"
  by (simp add: and_then_def)

lemma and_then_Inl: "and_then (Inl e) f = Inl e"
  by (simp add: and_then_def)

lemma overlap_any_text:
  "calculate_symptom_overlap_any (JStr s) (JStr t) = calculate_symptom_overlap s t"
  by (simp add: calculate_symptom_overlap_any_def calculate_symptom_overlap_def
      process_symptoms_any_def process_symptoms_def and_then_def Let_def)

lemma seasonal_any_text:
  "calculate_seasonal_relevance_any month (JStr s) = Inr (calculate_seasonal_relevance month s)"
  by (simp add: calculate_seasonal_relevance_any_def calculate_seasonal_relevance_def
      and_then_def split: option.split)

lemma well_typed_similarity:
  "well_typed d \<Longrightarrow> get_or (d ''similarity'') (JNum 0) = JNum (similarity_of d)"
  by (auto simp: well_typed_def similarity_of_def get_or_def split: option.splits json.splits)

lemma well_typed_symptoms:
  "well_typed d \<Longrightarrow> get_or (d ''symptoms'') (JStr dflt) = JStr (text_of d ''symptoms'' dflt)"
  by (auto simp: well_typed_def text_of_def get_or_def split: option.splits json.splits)

lemma well_typed_disease_name:
  "well_typed d \<Longrightarrow>
     get_or (d ''disease_name'') (JStr dflt) = JStr (text_of d ''disease_name'' dflt)"
  by (auto simp: well_typed_def text_of_def get_or_def split: option.splits json.splits)

lemma py_sum_from_numbers: "py_sum_from acc (map JNum xs) = Inr (acc + sum_list xs)"
  by (induction xs arbitrary: acc) (simp_all add: and_then_def add.assoc)

lemma py_sum_from_comp:
  "py_sum_from acc (map (JNum \<circ> f) ds) = Inr (acc + sum_list (map f ds))"
  by (induction ds arbitrary: acc) (simp_all add: and_then_def add.assoc)


lemma confidences_numbers:
  "list_all well_typed ds \<Longrightarrow>
     map (\<lambda>d. get_or (d ''similarity'') (JNum 0)) ds = map JNum (map similarity_of ds)"
  by (induction ds) (simp_all add: well_typed_similarity)


lemma metrics_one_any:
  "calculate_confidence_metrics_any month [c0] =
     Inr [''absolute_confidence'' \<mapsto> Copied (get_or (c0 ''similarity'') (JNum 0)),
          ''relative_confidence'' \<mapsto> Computed (Finite 0),
          ''confidence_margin'' \<mapsto> Computed (Finite 0),
          ''diagnosis_clarity'' \<mapsto> Computed (Finite 0),
          ''symptom_overlap'' \<mapsto> Overlaps [],
          ''seasonal_relevance'' \<mapsto> Computed (Finite 0)]"
  by (simp add: calculate_confidence_metrics_any_def py_index_def and_then_def Let_def)

lemma metrics_two_any:
  assumes "well_typed c0" "well_typed c1" "list_all well_typed rest"
    and "symptom_overlaps_any (JStr (text_of c0 ''symptoms'' '''')) (c1 # rest) = Inr es"
  shows "calculate_confidence_metrics_any month (c0 # c1 # rest) =
     Inr [''absolute_confidence'' \<mapsto> Copied (JNum (similarity_of c0)),
          ''relative_confidence'' \<mapsto>
             Computed (if similarity_of c1 > 0
                       then Finite (similarity_of c0 / similarity_of c1) else Infinity),
          ''confidence_margin'' \<mapsto> Computed (Finite (similarity_of c0 - similarity_of c1)),
          ''diagnosis_clarity'' \<mapsto>
             Computed (Finite (if similarity_of c0 > 0
                then (similarity_of c0 -
                       sum_list (map similarity_of (c1 # rest)) / real (Suc (length rest)))
                     / similarity_of c0
                else 0)),
          ''symptom_overlap'' \<mapsto> Overlaps es,
          ''seasonal_relevance'' \<mapsto>
             Computed (Finite (calculate_seasonal_relevance month
                                 (text_of c0 ''disease_name'' '''')))]"
proof -
  have conf: "map (\<lambda>d. get_or (d ''similarity'') (JNum 0)) rest = map JNum (map similarity_of rest)"
    using assms(3) by (rule confidences_numbers)
  show ?thesis
    using assms(4)
    by (auto simp: calculate_confidence_metrics_any_def py_index_def py_truediv_def Let_def
        and_then_Inr py_gt_zero_def py_div_def py_sub_def py_sum_def conf py_sum_from_numbers py_sum_from_comp
        well_typed_similarity [OF assms(1)] well_typed_similarity [OF assms(2)]
        well_typed_symptoms [OF assms(1)] well_typed_disease_name [OF assms(1)]
        seasonal_any_text)
qed











subsection \<open>The two embeddings agree on typed candidates\<close>

text \<open>On the rows that come from candidates of the first embedding, the second
  embedding returns what the first returns: the same report, but for
  absolute_confidence, which is the copied similarity, and the same assembled result.\<close>

lemma row_of_well_typed: "well_typed (row_of c)"
  by (simp add: well_typed_def row_of_def split: option.split)

lemma row_of_reads:
  "similarity_of (row_of c) = get_or (similarity c) 0"
  "text_of (row_of c) ''symptoms'' dflt = get_or (symptoms c) dflt"
  "text_of (row_of c) ''disease_name'' dflt = get_or (disease_name c) dflt"
  "get_or (row_of c ''symptoms'') (JStr dflt) = JStr (get_or (symptoms c) dflt)"
  "get_or (row_of c ''disease_name'') (JStr dflt) = JStr (get_or (disease_name c) dflt)"
  "get_or (row_of c ''similarity'') (JNum x) = JNum (get_or (similarity c) x)"
  by (simp_all add: similarity_of_def text_of_def row_of_def get_or_def split: option.split)

lemma symptom_overlaps_agree:
  "symptom_overlaps p ds = Inr es \<Longrightarrow>
   symptom_overlaps_any (JStr p) (map row_of ds) = Inr (map entry_of es)"
proof (induction ds arbitrary: es)
  case Nil
  then show ?case by simp
next
  case (Cons d ds)
  then show ?case
    by (auto simp: and_then_def row_of_reads overlap_any_text entry_of_def split: sum.splits)
qed

lemma metrics_agree:
  "\<exists>m m'. calculate_confidence_metrics month cs = Inr m \<and>
      calculate_confidence_metrics_any month (map row_of cs) = Inr m' \<and>
      (\<forall>key. key \<noteq> ''absolute_confidence'' \<longrightarrow> m' key = map_option any_of_metric (m key)) \<and>
      (\<forall>x. m ''absolute_confidence'' = Some (Number (Finite x)) \<longrightarrow>
         m' ''absolute_confidence'' = Some (Copied (JNum x)))"
proof (cases cs)
  case Nil
  then show ?thesis
    by (simp add: calculate_confidence_metrics_def calculate_confidence_metrics_any_def)
next
  case outer: (Cons c0 rest)
  show ?thesis
  proof (cases rest)
    case Nil
    then show ?thesis
      using outer by (simp add: metrics_one metrics_one_any row_of_reads)
  next
    case (Cons c1 rest')
    obtain es where es: "symptom_overlaps (get_or (symptoms c0) []) (c1 # rest') = Inr es"
      using symptom_overlaps_total by blast
    have es': "symptom_overlaps_any (JStr (text_of (row_of c0) ''symptoms'' []))
        (row_of c1 # map row_of rest') = Inr (map entry_of es)"
      using symptom_overlaps_agree [OF es] by (simp add: row_of_reads)
    have wt: "list_all well_typed (map row_of rest')"
      by (simp add: list_all_iff row_of_well_typed)
    show ?thesis
      unfolding outer Cons list.map metrics_two [OF es]
        metrics_two_any [OF row_of_well_typed row_of_well_typed wt es']
      by (simp add: row_of_reads o_def)
  qed
qed

lemma assemble_agree:
  "\<exists>r r'. assemble_results month cs = Inr r \<and>
      assemble_results_any month (map row_of cs) = Inr r' \<and>
      any_success r' = success r \<and> any_error r' = error r \<and> any_details r' = details r \<and>
      map_option any_primary_disease (any_diagnosis_payload r') =
        map_option (\<lambda>d. JStr (primary_disease d)) (diagnosis_payload r) \<and>
      map_option any_confidence (any_diagnosis_payload r') =
        map_option (\<lambda>d. JNum (confidence d)) (diagnosis_payload r) \<and>
      map_option (map any_alt_disease_name) (any_alternative_diagnoses r') =
        map_option (map (\<lambda>a. JStr (alt_disease_name a))) (alternative_diagnoses r) \<and>
      map_option (map any_alt_confidence) (any_alternative_diagnoses r') =
        map_option (map (\<lambda>a. JNum (alt_confidence a))) (alternative_diagnoses r)"
proof (cases cs)
  case Nil
  then show ?thesis
    by (simp add: assemble_results_def assemble_results_any_def)
next
  case (Cons c0 rest)
  obtain m m' where m: "calculate_confidence_metrics month cs = Inr m"
    "calculate_confidence_metrics_any month (map row_of cs) = Inr m'"
    using metrics_agree by blast
  show ?thesis
    using m unfolding Cons
    by (simp add: assemble_results_def assemble_results_any_def and_then_def py_index_def
        row_of_reads o_def)
qed

end
